theory Spec2Isabelle
  imports Main
begin

section \<open>Python strings\<close>

text \<open>
  A Python \<open>str\<close> is modelled as a \<^typ>\<open>string\<close>: each \<^typ>\<open>char\<close> stands for the code
  point of the same number, so the model covers the URLs whose code points are below 256.
  The helpers below are the \<open>str\<close> methods that \<open>app.py\<close> and the standard library code it
  calls use, with Python's conventions (\<open>find\<close> returns \<open>-1\<close> when nothing is found).
\<close>

definition rstrip :: "string \<Rightarrow> string \<Rightarrow> string" where
  "rstrip s chars = rev (dropWhile (\<lambda>c. c \<in> set chars) (rev s))"

definition lstrip :: "string \<Rightarrow> string \<Rightarrow> string" where
  "lstrip s chars = dropWhile (\<lambda>c. c \<in> set chars) s"

text \<open>\<open>s.replace(b, "")\<close> for a one-character \<open>b\<close>.\<close>

definition replace_empty :: "string \<Rightarrow> char \<Rightarrow> string" where
  "replace_empty s b = filter (\<lambda>c. c \<noteq> b) s"

text \<open>\<open>s.find(c, start)\<close> and \<open>s.rfind(c)\<close> for a one-character \<open>c\<close>.\<close>

definition find_str :: "string \<Rightarrow> char \<Rightarrow> nat \<Rightarrow> int" where
  "find_str s c start =
     (let rest = drop start s; k = length (takeWhile (\<lambda>x. x \<noteq> c) rest)
      in if k < length rest then int (start + k) else - 1)"

definition rfind_str :: "string \<Rightarrow> char \<Rightarrow> int" where
  "rfind_str s c =
     (if c \<in> set s then int (length s - 1 - length (takeWhile (\<lambda>x. x \<noteq> c) (rev s)))
      else - 1)"

definition startswith :: "string \<Rightarrow> string \<Rightarrow> bool" where
  "startswith s p = (take (length p) s = p)"

text \<open>\<open>sub in s\<close> for strings: \<open>sub\<close> occurs in \<open>s\<close> as a contiguous block.\<close>

primrec contains :: "string \<Rightarrow> string \<Rightarrow> bool" where
  "contains [] sub = (sub = [])"
| "contains (c # cs) sub = (startswith (c # cs) sub \<or> contains cs sub)"

text \<open>\<open>s.count(c)\<close> for a one-character \<open>c\<close>.\<close>

definition count_str :: "string \<Rightarrow> char \<Rightarrow> int" where
  "count_str s c = int (length (filter (\<lambda>x. x = c) s))"

text \<open>\<open>s.partition(c)\<close>: the part before the first \<open>c\<close>, the separator, the part after it.\<close>

definition partition_str :: "string \<Rightarrow> char \<Rightarrow> string \<times> string \<times> string" where
  "partition_str s c =
     (case dropWhile (\<lambda>x. x \<noteq> c) s of
        [] \<Rightarrow> (s, [], [])
      | x # after \<Rightarrow> (takeWhile (\<lambda>x. x \<noteq> c) s, [c], after))"

text \<open>\<open>s.split(c, 1)\<close> where \<open>c\<close> is known to occur in \<open>s\<close>.\<close>

definition split1 :: "string \<Rightarrow> char \<Rightarrow> string \<times> string" where
  "split1 s c = (takeWhile (\<lambda>x. x \<noteq> c) s, drop 1 (dropWhile (\<lambda>x. x \<noteq> c) s))"

text \<open>\<open>s.split(c)\<close>.\<close>

primrec split_str :: "string \<Rightarrow> char \<Rightarrow> string list" where
  "split_str [] c = [[]]"
| "split_str (x # xs) c =
     (if x = c then [] # split_str xs c
      else (case split_str xs c of [] \<Rightarrow> [[x]] | p # ps \<Rightarrow> (x # p) # ps))"

definition isascii :: "string \<Rightarrow> bool" where
  "isascii s = (\<forall>c \<in> set s. (of_char c :: nat) < 128)"

definition ascii_letters_lower :: string where
  "ascii_letters_lower = ''abcdefghijklmnopqrstuvwxyz''"

definition ascii_letters_upper :: string where
  "ascii_letters_upper = ''ABCDEFGHIJKLMNOPQRSTUVWXYZ''"

definition digits :: string where
  "digits = ''0123456789''"

text \<open>\<open>str.lower\<close> on ASCII letters (the only place it is used is a string of scheme characters).\<close>

definition lower_char :: "char \<Rightarrow> char" where
  "lower_char c =
     (case map_of (zip ascii_letters_upper ascii_letters_lower) c of
        Some d \<Rightarrow> d
      | None \<Rightarrow> c)"

definition lower :: "string \<Rightarrow> string" where
  "lower s = map lower_char s"

text \<open>
  \<open>str.isalnum\<close> for one character, on the code points below 256: the ASCII letters and
  digits and the Latin-1 letters and numeric characters.
\<close>

definition isalnum :: "char \<Rightarrow> bool" where
  "isalnum c =
     (let n = (of_char c :: nat)
      in (48 \<le> n \<and> n \<le> 57) \<or> (65 \<le> n \<and> n \<le> 90) \<or> (97 \<le> n \<and> n \<le> 122)
         \<or> n \<in> {170, 178, 179, 181, 185, 186, 188, 189, 190}
         \<or> (192 \<le> n \<and> n \<le> 214) \<or> (216 \<le> n \<and> n \<le> 246) \<or> 248 \<le> n)"

section \<open>Regular expressions\<close>

text \<open>
  The two patterns in play are kept as the trees Python's \<open>re\<close> parser builds for them.
  \<open>match_ends r s i\<close> lists every position at which a match of \<open>r\<close> that starts at position
  \<open>i\<close> of \<open>s\<close> can end, so a backtracking search finds a match exactly when the list is not
  empty. A repeat is tried for every count from its lower bound up to its upper bound
  (\<open>MAXREPEAT\<close> is the parser's "no upper bound"), the upper bound cut at the length of the
  string: the bodies repeated here consume one character each time.
\<close>

datatype max_count = UpTo nat | MAXREPEAT

datatype regex =
    LITERAL char
  | IN "(char \<times> char) list"
  | ANY
  | AT_BOUNDARY
  | AT_BEGINNING_STRING
  | AT_END_STRING
  | SEQ regex regex
  | MAX_REPEAT nat max_count regex

text \<open>\<open>\w\<close> for a \<open>str\<close> pattern: alphanumeric or underscore.\<close>

definition is_word :: "char \<Rightarrow> bool" where
  "is_word c = (isalnum c \<or> c = CHR ''_'')"

text \<open>\<open>\b\<close>: exactly one of the characters before and after the position is a word character.\<close>

definition at_boundary :: "string \<Rightarrow> nat \<Rightarrow> bool" where
  "at_boundary s i =
     (let thatp = (0 < i \<and> i \<le> length s \<and> is_word (s ! (i - 1)));
          thisp = (i < length s \<and> is_word (s ! i))
      in thisp \<noteq> thatp)"

definition in_ranges :: "(char \<times> char) list \<Rightarrow> char \<Rightarrow> bool" where
  "in_ranges rs c =
     list_ex (\<lambda>(lo, hi). (of_char lo :: nat) \<le> of_char c \<and> (of_char c :: nat) \<le> of_char hi) rs"

primrec iterate_ends :: "(nat \<Rightarrow> nat list) \<Rightarrow> nat \<Rightarrow> nat list \<Rightarrow> nat list" where
  "iterate_ends f 0 ps = ps"
| "iterate_ends f (Suc k) ps = iterate_ends f k (concat (map f ps))"

primrec match_ends :: "regex \<Rightarrow> string \<Rightarrow> nat \<Rightarrow> nat list" where
  "match_ends (LITERAL c) s i = (if i < length s \<and> s ! i = c then [Suc i] else [])"
| "match_ends (IN rs) s i = (if i < length s \<and> in_ranges rs (s ! i) then [Suc i] else [])"
| "match_ends ANY s i = (if i < length s \<and> s ! i \<noteq> CHR 0x0A then [Suc i] else [])"
| "match_ends AT_BOUNDARY s i = (if at_boundary s i then [i] else [])"
| "match_ends AT_BEGINNING_STRING s i = (if i = 0 then [i] else [])"
| "match_ends AT_END_STRING s i = (if i = length s then [i] else [])"
| "match_ends (SEQ a b) s i = concat (map (match_ends b s) (match_ends a s i))"
| "match_ends (MAX_REPEAT lo hi r) s i =
     concat (map (\<lambda>k. iterate_ends (match_ends r s) k [i])
                 [lo..<Suc (case hi of UpTo n \<Rightarrow> min n (length s) | MAXREPEAT \<Rightarrow> length s)])"

text \<open>\<open>re.search\<close> tries every start position, \<open>re.match\<close> only the first.\<close>

definition re_search :: "regex \<Rightarrow> string \<Rightarrow> bool" where
  "re_search r s = list_ex (\<lambda>i. match_ends r s i \<noteq> []) [0..<Suc (length s)]"

definition re_match :: "regex \<Rightarrow> string \<Rightarrow> bool" where
  "re_match r s = (match_ends r s 0 \<noteq> [])"

section \<open>Exceptions\<close>

text \<open>
  The exceptions that can reach the code of \<open>app.py\<close>; every one of them is a subclass of
  \<open>Exception\<close>. \<open>UnicodeError\<close> is a subclass of \<open>ValueError\<close>, \<open>socket.error\<close> is the
  same class as \<open>OSError\<close>, and \<open>socket.gaierror\<close>, \<open>socket.herror\<close> and \<open>socket.timeout\<close>
  are subclasses of it. \<open>OtherError\<close> stands for any exception class of a third-party
  library that is none of the others.
\<close>

datatype py_exception =
    ValueError
  | UnicodeError
  | TypeError
  | IndexError
  | OSError
  | OtherError string

text \<open>\<open>except socket.error\<close> catches the instances of \<open>OSError\<close>.\<close>

definition is_socket_error :: "py_exception \<Rightarrow> bool" where
  "is_socket_error e = (e = OSError)"

section \<open>The standard library: \<open>ipaddress\<close>\<close>

text \<open>
  \<open>urllib.parse\<close> (CPython 3.11) validates a bracketed host with \<open>ipaddress.ip_address\<close>.
  Only whether the constructors \<open>IPv4Address\<close> and \<open>IPv6Address\<close> raise matters there, so
  they are modelled by the predicates that hold when they return.
\<close>

definition parse_octet :: "string \<Rightarrow> bool" where
  "parse_octet octet_str =
     (if octet_str = [] then False
      else if \<not> (\<forall>c \<in> set octet_str. c \<in> set digits) then False
      else if length octet_str > 3 then False
      else if octet_str \<noteq> ''0'' \<and> hd octet_str = CHR ''0'' then False
      else \<not> foldl (\<lambda>a c. 10 * a + length (takeWhile (\<lambda>d. d \<noteq> c) digits)) 0 octet_str > 255)"

definition IPv4Address :: "string \<Rightarrow> bool" where
  "IPv4Address addr_str =
     (if CHR ''/'' \<in> set addr_str then False
      else if addr_str = [] then False
      else (let octets = split_str addr_str CHR ''.''
            in if length octets \<noteq> 4 then False else list_all parse_octet octets))"

definition HEX_DIGITS :: string where
  "HEX_DIGITS = ''0123456789ABCDEFabcdef''"

definition parse_hextet :: "string \<Rightarrow> bool" where
  "parse_hextet hextet_str =
     (if \<not> (\<forall>c \<in> set hextet_str. c \<in> set HEX_DIGITS) then False
      else if length hextet_str > 4 then False
      else hextet_str \<noteq> [])"

text \<open>
  \<open>_BaseV6._ip_int_from_string\<close>. An IPv4-style suffix is replaced by the two hextets of
  its value; they are always well formed, and \<open>''0''\<close> stands for them here.
\<close>

definition ip_int_from_string :: "string \<Rightarrow> bool" where
  "ip_int_from_string ip_str =
     (if ip_str = [] then False
      else
        (let parts = split_str ip_str CHR '':'' in
         if length parts < 3 then False
         else if CHR ''.'' \<in> set (last parts) \<and> \<not> IPv4Address (last parts) then False
         else
           (let parts = (if CHR ''.'' \<in> set (last parts)
                         then butlast parts @ [''0'', ''0''] else parts) in
            if length parts > 9 then False
            else
              (let skips = filter (\<lambda>i. parts ! i = []) [1..<length parts - 1] in
               if length skips > 1 then False
               else if skips \<noteq> [] then
                 (let skip_index = hd skips;
                      parts_hi = (if hd parts = [] then skip_index - 1 else skip_index);
                      parts_lo = (if last parts = [] then length parts - skip_index - 1 - 1
                                  else length parts - skip_index - 1)
                  in if hd parts = [] \<and> parts_hi \<noteq> 0 then False
                     else if last parts = [] \<and> parts_lo \<noteq> 0 then False
                     else if int 8 - int (parts_hi + parts_lo) < 1 then False
                     else list_all parse_hextet (take parts_hi parts)
                          \<and> list_all parse_hextet (drop (length parts - parts_lo) parts))
               else
                 (if length parts \<noteq> 8 then False
                  else if hd parts = [] then False
                  else if last parts = [] then False
                  else list_all parse_hextet parts)))))"

definition split_scope_id :: "string \<Rightarrow> string option" where
  "split_scope_id ip_str =
     (case partition_str ip_str CHR ''%'' of
        (addr, sep, scope_id) \<Rightarrow>
          if sep = [] then Some addr
          else if scope_id = [] \<or> CHR ''%'' \<in> set scope_id then None
          else Some addr)"

definition IPv6Address :: "string \<Rightarrow> bool" where
  "IPv6Address addr_str =
     (if CHR ''/'' \<in> set addr_str then False
      else (case split_scope_id addr_str of
              None \<Rightarrow> False
            | Some addr \<Rightarrow> ip_int_from_string addr))"

datatype ip_version = V4 | V6

definition ip_address :: "string \<Rightarrow> py_exception + ip_version" where
  "ip_address address =
     (if IPv4Address address then Inr V4
      else if IPv6Address address then Inr V6
      else Inl ValueError)"

section \<open>The standard library: \<open>urllib.parse\<close>\<close>

text \<open>
  \<open>urlparse\<close> as CPython 3.11 defines it, called as \<open>app.py\<close> calls it: on a \<open>str\<close>, with the
  default empty \<open>scheme\<close> and with \<open>allow_fragments\<close> true. It raises \<open>ValueError\<close> on a
  malformed bracketed host. The cache of \<open>urlsplit\<close> does not change what it returns.
\<close>

definition uses_params :: "string list" where
  "uses_params = ['''', ''ftp'', ''hdl'', ''prospero'', ''http'', ''imap'',
                  ''https'', ''shttp'', ''rtsp'', ''rtsps'', ''rtspu'', ''sip'',
                  ''sips'', ''mms'', ''sftp'', ''tel'']"

definition scheme_chars :: string where
  "scheme_chars = ascii_letters_lower @ ascii_letters_upper @ digits @ ''+-.''"

definition WHATWG_C0_CONTROL_OR_SPACE :: string where
  "WHATWG_C0_CONTROL_OR_SPACE =
     [CHR 0x00, CHR 0x01, CHR 0x02, CHR 0x03, CHR 0x04, CHR 0x05, CHR 0x06, CHR 0x07,
      CHR 0x08, CHR 0x09, CHR 0x0A, CHR 0x0B, CHR 0x0C, CHR 0x0D, CHR 0x0E, CHR 0x0F,
      CHR 0x10, CHR 0x11, CHR 0x12, CHR 0x13, CHR 0x14, CHR 0x15, CHR 0x16, CHR 0x17,
      CHR 0x18, CHR 0x19, CHR 0x1A, CHR 0x1B, CHR 0x1C, CHR 0x1D, CHR 0x1E, CHR 0x1F,
      CHR '' '']"

definition UNSAFE_URL_BYTES_TO_REMOVE :: string where
  "UNSAFE_URL_BYTES_TO_REMOVE = [CHR 0x09, CHR 0x0D, CHR 0x0A]"

definition splitparams :: "string \<Rightarrow> string \<times> string" where
  "splitparams url =
     (if CHR ''/'' \<in> set url then
        (let i = find_str url CHR '';'' (nat (rfind_str url CHR ''/''))
         in if i < 0 then (url, [])
            else (take (nat i) url, drop (nat i + 1) url))
      else
        (let i = find_str url CHR '';'' 0
         in (take (nat i) url, drop (nat i + 1) url)))"

definition splitnetloc :: "string \<Rightarrow> nat \<Rightarrow> string \<times> string" where
  "splitnetloc url start =
     (let delim = foldl (\<lambda>delim c. let wdelim = find_str url c start
                                     in if wdelim \<ge> 0 then min delim wdelim else delim)
                        (int (length url)) ''/?#''
      in (drop start (take (nat delim) url), drop (nat delim) url))"

text \<open>
  \<open>_checknetloc\<close> returns at once on an empty or ASCII host. On any other host it raises
  only if NFKC normalisation brings in one of the characters \<open>/?#@:\<close>; no code point below
  256 normalises to a string holding one of them, so within the model it never raises.
\<close>

definition checknetloc :: "string \<Rightarrow> py_exception + unit" where
  "checknetloc netloc = Inr ()"

text \<open>The pattern \<open>\Av[a-fA-F0-9]+\..+\Z\<close>.\<close>

definition ipvfuture_pattern :: regex where
  "ipvfuture_pattern =
     SEQ AT_BEGINNING_STRING
    (SEQ (LITERAL CHR ''v'')
    (SEQ (MAX_REPEAT 1 MAXREPEAT
            (IN [(CHR ''a'', CHR ''f''), (CHR ''A'', CHR ''F''), (CHR ''0'', CHR ''9'')]))
    (SEQ (LITERAL CHR ''.'')
    (SEQ (MAX_REPEAT 1 MAXREPEAT ANY)
         AT_END_STRING))))"

definition check_bracketed_host :: "string \<Rightarrow> py_exception + unit" where
  "check_bracketed_host hostname =
     (if startswith hostname ''v'' then
        (if \<not> re_match ipvfuture_pattern hostname then Inl ValueError else Inr ())
      else
        (case ip_address hostname of
           Inl e \<Rightarrow> Inl e
         | Inr ip \<Rightarrow> if ip = V4 then Inl ValueError else Inr ()))"

definition urlsplit ::
  "string \<Rightarrow> py_exception + (string \<times> string \<times> string \<times> string \<times> string)" where
  "urlsplit url0 =
     (let url = lstrip url0 WHATWG_C0_CONTROL_OR_SPACE;
          url = foldl replace_empty url UNSAFE_URL_BYTES_TO_REMOVE;
          i = find_str url CHR '':'' 0;
          (scheme, url) =
            (if i > 0 \<and> hd url \<in> set (ascii_letters_lower @ ascii_letters_upper)
                \<and> (\<forall>c \<in> set (take (nat i) url). c \<in> set scheme_chars)
             then (lower (take (nat i) url), drop (nat i + 1) url)
             else ([], url))
      in case (if take 2 url = ''//'' then
                 (let (netloc, url) = splitnetloc url 2 in
                  if (CHR ''['' \<in> set netloc \<and> CHR '']'' \<notin> set netloc)
                     \<or> (CHR '']'' \<in> set netloc \<and> CHR ''['' \<notin> set netloc)
                  then Inl ValueError
                  else if CHR ''['' \<in> set netloc \<and> CHR '']'' \<in> set netloc then
                    (let bracketed_host =
                           fst (partition_str (snd (snd (partition_str netloc CHR ''[''))) CHR '']'')
                     in case check_bracketed_host bracketed_host of
                          Inl e \<Rightarrow> Inl e
                        | Inr u \<Rightarrow> Inr (netloc, url))
                  else Inr (netloc, url))
               else Inr ([], url)) of
           Inl e \<Rightarrow> Inl e
         | Inr (netloc, url) \<Rightarrow>
             (let (url, fragment) = (if CHR ''#'' \<in> set url then split1 url CHR ''#'' else (url, []));
                  (url, query) = (if CHR ''?'' \<in> set url then split1 url CHR ''?'' else (url, []))
              in case checknetloc netloc of
                   Inl e \<Rightarrow> Inl e
                 | Inr u \<Rightarrow> Inr (scheme, netloc, url, query, fragment)))"

record parse_result =
  scheme :: string
  netloc :: string
  path :: string
  params :: string
  query :: string
  fragment :: string

definition urlparse :: "string \<Rightarrow> py_exception + parse_result" where
  "urlparse url0 =
     (case urlsplit url0 of
        Inl e \<Rightarrow> Inl e
      | Inr (sch, loc, url, qry, frag) \<Rightarrow>
          (let (url, prm) = (if sch \<in> set uses_params \<and> CHR '';'' \<in> set url
                             then splitparams url else (url, []))
           in Inr \<lparr>scheme = sch, netloc = loc, path = url, params = prm,
                    query = qry, fragment = frag\<rparr>))"

section \<open>\<open>app.py\<close>: the lexical features\<close>

text \<open>
  The pattern of \<open>has_ip_address\<close> is \<open>\b(?:[0-9]{1,3}\.){3}[0-9]{1-3}\b\<close>. Its last
  quantifier is written \<open>{1-3}\<close>, which is not a repeat: Python's parser reads it as the five
  literal characters \<open>{\<close>, \<open>1\<close>, \<open>-\<close>, \<open>3\<close>, \<open>}\<close> after one digit.
\<close>

definition ip_pattern :: regex where
  "ip_pattern =
     SEQ AT_BOUNDARY
    (SEQ (MAX_REPEAT 3 (UpTo 3)
            (SEQ (MAX_REPEAT 1 (UpTo 3) (IN [(CHR ''0'', CHR ''9'')])) (LITERAL CHR ''.'')))
    (SEQ (IN [(CHR ''0'', CHR ''9'')])
    (SEQ (LITERAL CHR ''{'')
    (SEQ (LITERAL CHR ''1'')
    (SEQ (LITERAL CHR ''-'')
    (SEQ (LITERAL CHR ''3'')
    (SEQ (LITERAL CHR ''}'')
         AT_BOUNDARY)))))))"

definition has_ip_address :: "string \<Rightarrow> int" where
  "has_ip_address url = (if re_search ip_pattern url then 1 else 0)"

definition has_at_symbol :: "string \<Rightarrow> int" where
  "has_at_symbol url = (if CHR ''@'' \<in> set url then 1 else 0)"

definition get_url_length :: "string \<Rightarrow> int" where
  "get_url_length url = (if length url < 54 then 1 else 0)"

definition get_url_depth :: "string \<Rightarrow> py_exception + int" where
  "get_url_depth url =
     (case urlparse url of
        Inl e \<Rightarrow> Inl e
      | Inr r \<Rightarrow> if path r = ''/'' then Inr 0 else Inr (count_str (path r) CHR ''/''))"

definition has_redirection :: "string \<Rightarrow> py_exception + int" where
  "has_redirection url =
     (case urlparse url of
        Inl e \<Rightarrow> Inl e
      | Inr r \<Rightarrow> Inr (if contains (path r) ''//'' then 1 else 0))"

definition has_https_in_domain :: "string \<Rightarrow> py_exception + int" where
  "has_https_in_domain url =
     (case urlparse url of
        Inl e \<Rightarrow> Inl e
      | Inr r \<Rightarrow> (let domain = netloc r in Inr (if contains domain ''https'' then 1 else 0)))"

definition tiny_domain :: "string list" where
  "tiny_domain = [''bit.ly'', ''goog.gl'', ''tinyurl.com'', ''ow.ly'', ''t.co'']"

definition is_tiny_url :: "string \<Rightarrow> py_exception + int" where
  "is_tiny_url url =
     (case urlparse url of
        Inl e \<Rightarrow> Inl e
      | Inr r \<Rightarrow> (let domain = netloc r in Inr (if domain \<in> set tiny_domain then 1 else 0)))"

definition has_prefix_suffix :: "string \<Rightarrow> py_exception + int" where
  "has_prefix_suffix url =
     (case urlparse url of
        Inl e \<Rightarrow> Inl e
      | Inr r \<Rightarrow> (let domain = netloc r in Inr (if CHR ''-'' \<in> set domain then 1 else 0)))"

section \<open>The world outside the program\<close>

text \<open>
  What the probes read from outside is a parameter of the model: the name resolver, the
  ranking file, the registration records, the clock and the web. A value of \<open>env\<close> fixes the
  answers for the time of one call of \<open>extract_features\<close>.
\<close>

datatype cell = StrCell string | OtherCell

datatype datetime = Naive int | Aware int

datatype py_value = PyNone | PyStr string | PyDatetime datetime | PyList "py_value list"

record whois_entry =
  creation_date :: py_value
  expiration_date :: py_value

record response =
  response_text :: string
  response_history :: "string list"

record env =
  resolver :: "string \<Rightarrow> string option"
  idna_ToASCII :: "string \<Rightarrow> string option"
  read_csv :: "string \<Rightarrow> py_exception + cell list list"
  whois :: "string \<Rightarrow> py_exception + whois_entry"
  now :: int
  requests_get :: "string \<Rightarrow> nat \<Rightarrow> py_exception + response"

text \<open>
  \<^item> \<open>resolver\<close> is the system's name lookup behind \<open>socket.gethostbyname\<close>, on the encoded
    host name: the address, or \<open>None\<close> when the lookup fails or times out (the library then
    raises \<open>socket.gaierror\<close>, \<open>socket.herror\<close> or \<open>socket.timeout\<close>).
  \<^item> \<open>idna_ToASCII\<close> is the \<open>idna\<close> codec on a host name that is not ASCII (nameprep and
    Punycode): the encoded name, or \<open>None\<close> when the codec raises \<open>UnicodeError\<close>.
  \<^item> \<open>read_csv\<close> is \<open>pandas.read_csv\<close>: the rows of the table, a cell being a string or
    something else (a number, a missing value), or the exception raised.
  \<^item> \<open>whois\<close> is \<open>whois.whois\<close>; the two date attributes of a record can be missing
    (\<open>None\<close>), a date and time (in microseconds, with or without a time zone), a string the
    library could not parse, or a list of such values.
  \<^item> \<open>now\<close> is \<open>datetime.now()\<close>, in microseconds, without a time zone.
  \<^item> \<open>requests_get url timeout\<close> is \<open>requests.get(url, timeout=timeout)\<close>, which follows
    redirects; \<open>response_text\<close> is the attribute \<open>text\<close> of the response and
    \<open>response_history\<close> its attribute \<open>history\<close>, the list of the redirects followed.
\<close>

section \<open>\<open>socket.gethostbyname\<close>\<close>

text \<open>
  The argument is first encoded with the \<open>idna\<close> codec, whose fast path for an ASCII name
  checks the length of the labels; the encoded name must hold no null character; then the
  name is looked up.
\<close>

definition idna_encode :: "env \<Rightarrow> string \<Rightarrow> py_exception + string" where
  "idna_encode e input =
     (if input = [] then Inr []
      else if isascii input then
        (let labels = split_str input CHR ''.'' in
         if \<exists>label \<in> set (butlast labels). \<not> (0 < length label \<and> length label < 64)
         then Inl UnicodeError
         else if length (last labels) \<ge> 64 then Inl UnicodeError
         else Inr input)
      else (case idna_ToASCII e input of None \<Rightarrow> Inl UnicodeError | Some r \<Rightarrow> Inr r))"

definition gethostbyname :: "env \<Rightarrow> string \<Rightarrow> py_exception + string" where
  "gethostbyname e name =
     (case idna_encode e name of
        Inl ex \<Rightarrow> Inl ex
      | Inr encoded \<Rightarrow>
          if CHR 0x00 \<in> set encoded then Inl TypeError
          else (case resolver e encoded of None \<Rightarrow> Inl OSError | Some addr \<Rightarrow> Inr addr))"

section \<open>\<open>app.py\<close>: the probes\<close>

text \<open>
  A computation that can raise returns a sum, the exception to the left. \<open>bind_exn\<close> runs
  the next statement when the previous one returned, and \<open>except_Exception\<close> is
  \<open>try: ... except Exception: return r\<close>.
\<close>

definition bind_exn :: "py_exception + 'a \<Rightarrow> ('a \<Rightarrow> py_exception + 'b) \<Rightarrow> py_exception + 'b" where
  "bind_exn m f = (case m of Inl ex \<Rightarrow> Inl ex | Inr x \<Rightarrow> f x)"

definition except_Exception :: "py_exception + 'a \<Rightarrow> 'a \<Rightarrow> 'a" where
  "except_Exception body r = (case body of Inl ex \<Rightarrow> r | Inr v \<Rightarrow> v)"

text \<open>
  \<open>check_dns_record\<close> is decorated with \<open>lru_cache(maxsize=10000)\<close>. The cache is part of
  the state of the program: a list of arguments and results, the most recently used first.
  A hit moves its entry to the front and calls nothing; a miss calls the function and stores
  the result, dropping the least recently used entry when the cache is full; a call that
  raises stores nothing.
\<close>

type_synonym lru = "(string \<times> int) list"

definition maxsize :: nat where
  "maxsize = 10000"

definition check_dns_record_wrapped :: "env \<Rightarrow> string \<Rightarrow> py_exception + int" where
  "check_dns_record_wrapped e domain =
     (case gethostbyname e domain of
        Inr addr \<Rightarrow> Inr 1
      | Inl ex \<Rightarrow> if is_socket_error ex then Inr 0 else Inl ex)"

definition check_dns_record :: "env \<Rightarrow> lru \<Rightarrow> string \<Rightarrow> (py_exception + int) \<times> lru" where
  "check_dns_record e cache domain =
     (case map_of cache domain of
        Some result \<Rightarrow> (Inr result, (domain, result) # filter (\<lambda>kv. fst kv \<noteq> domain) cache)
      | None \<Rightarrow>
          (case check_dns_record_wrapped e domain of
             Inl ex \<Rightarrow> (Inl ex, cache)
           | Inr result \<Rightarrow> (Inr result, take maxsize ((domain, result) # cache))))"

text \<open>
  \<open>ranked_domains\<close> is read once when the program starts: the table of the ranking file, or
  an empty table when reading it raises. \<open>domain in ranked_domains.values\<close> holds when some
  cell of the table equals the string.
\<close>

definition ranked_domains :: "env \<Rightarrow> cell list list" where
  "ranked_domains e =
     (case read_csv e ''tranco_Z38YG.csv'' of Inl ex \<Rightarrow> [] | Inr df \<Rightarrow> df)"

definition get_web_traffic :: "env \<Rightarrow> string \<Rightarrow> int" where
  "get_web_traffic e domain =
     (if \<exists>row \<in> set (ranked_domains e). StrCell domain \<in> set row then 1 else 0)"

text \<open>
  Subtracting two values: defined on two dates that both have a time zone or both have
  none, a \<open>TypeError\<close> on anything else. The result is a \<open>timedelta\<close>, in microseconds, and
  \<open>days\<close> is its attribute of that name (rounded down).
\<close>

fun sub :: "py_value \<Rightarrow> py_value \<Rightarrow> py_exception + int" where
  "sub (PyDatetime (Naive a)) (PyDatetime (Naive b)) = Inr (a - b)"
| "sub (PyDatetime (Aware a)) (PyDatetime (Aware b)) = Inr (a - b)"
| "sub x y = Inl TypeError"

definition days :: "int \<Rightarrow> int" where
  "days delta = delta div 86400000000"

text \<open>\<open>if isinstance(v, list): v = v[0]\<close>.\<close>

definition first_if_list :: "py_value \<Rightarrow> py_exception + py_value" where
  "first_if_list v =
     (case v of
        PyList l \<Rightarrow> (case l of [] \<Rightarrow> Inl IndexError | x # xs \<Rightarrow> Inr x)
      | _ \<Rightarrow> Inr v)"

definition get_domain_age :: "env \<Rightarrow> string \<Rightarrow> int" where
  "get_domain_age e domain =
     except_Exception
       (bind_exn (whois e domain) (\<lambda>domain_info.
        bind_exn (first_if_list (creation_date domain_info)) (\<lambda>creation_date.
        bind_exn (sub (PyDatetime (Naive (now e))) creation_date) (\<lambda>delta.
        let age_in_days = days delta in
        Inr (if age_in_days \<ge> 365 then 1 else 0)))))
       0"

definition get_domain_end_period :: "env \<Rightarrow> string \<Rightarrow> int" where
  "get_domain_end_period e domain =
     except_Exception
       (bind_exn (whois e domain) (\<lambda>domain_info.
        bind_exn (first_if_list (expiration_date domain_info)) (\<lambda>expiration_date.
        bind_exn (sub expiration_date (PyDatetime (Naive (now e)))) (\<lambda>delta.
        let days_to_expire = days delta in
        Inr (if days_to_expire \<ge> 180 then 1 else 0)))))
       0"

definition has_mouse_over_effect :: "env \<Rightarrow> string \<Rightarrow> int" where
  "has_mouse_over_effect e url =
     except_Exception
       (bind_exn (requests_get e url 5) (\<lambda>response.
        let html = response_text response in
        Inr (if contains html ''onmouseover'' then 1 else 0)))
       0"

definition allows_right_click :: "string \<Rightarrow> int" where
  "allows_right_click url = 1"

definition has_web_forwards :: "env \<Rightarrow> string \<Rightarrow> int" where
  "has_web_forwards e url =
     except_Exception
       (bind_exn (requests_get e url 3) (\<lambda>response.
        let redirect_count = length (response_history response) in
        Inr (if redirect_count \<ge> 3 then 1 else 0)))
       0"

section \<open>\<open>app.py\<close>: \<open>extract_features\<close>\<close>

text \<open>
  The list is built from left to right, so the first call that raises ends
  \<open>extract_features\<close> with its exception. The state of the cache is returned with the result.
\<close>

definition extract_features :: "env \<Rightarrow> lru \<Rightarrow> string \<Rightarrow> (py_exception + int list) \<times> lru" where
  "extract_features e cache url0 =
     (let url = rstrip url0 ''/'' in
      case urlparse url of
        Inl ex \<Rightarrow> (Inl ex, cache)
      | Inr r \<Rightarrow>
     (let domain = netloc r in
      case get_url_depth url of
        Inl ex \<Rightarrow> (Inl ex, cache)
      | Inr depth \<Rightarrow>
     (case has_redirection url of
        Inl ex \<Rightarrow> (Inl ex, cache)
      | Inr redirection \<Rightarrow>
     (case has_https_in_domain url of
        Inl ex \<Rightarrow> (Inl ex, cache)
      | Inr https_in_domain \<Rightarrow>
     (case is_tiny_url url of
        Inl ex \<Rightarrow> (Inl ex, cache)
      | Inr tiny_url \<Rightarrow>
     (case has_prefix_suffix url of
        Inl ex \<Rightarrow> (Inl ex, cache)
      | Inr prefix_suffix \<Rightarrow>
     (case check_dns_record e cache domain of
        (Inl ex, cache') \<Rightarrow> (Inl ex, cache')
      | (Inr dns_record, cache') \<Rightarrow>
          (Inr [has_ip_address url, has_at_symbol url, get_url_length url,
                depth, redirection, https_in_domain,
                tiny_url, prefix_suffix, dns_record,
                get_web_traffic e domain, get_domain_age e domain, get_domain_end_period e domain,
                0, has_mouse_over_effect e url, allows_right_click url, has_web_forwards e url],
           cache'))))))))"

section \<open>\<open>app.py\<close>: \<open>make_prediction_and_explain\<close>\<close>

text \<open>
  The scaler, the classifier and the explainer are loaded artifacts of other libraries.
  They are parameters of the model, over a type \<open>'f\<close> of floating-point values about which
  nothing is assumed, and each call to them may raise. An array is its shape and its
  elements in row-major order.
\<close>

record 'f ndarray =
  shape :: "nat list"
  data :: "'f list"

datatype 'f shap_values = ShapList "'f ndarray list" | ShapArray "'f ndarray"

record 'f artifacts =
  scaler_transform :: "int ndarray \<Rightarrow> py_exception + 'f ndarray"
  model_predict :: "'f ndarray \<Rightarrow> py_exception + 'f ndarray"
  DeepExplainer :: "py_exception + ('f ndarray \<Rightarrow> py_exception + 'f shap_values)"
  KernelExplainer :: "'f ndarray \<Rightarrow> py_exception + 'f shap_values"

text \<open>
  \<open>DeepExplainer\<close> is the outcome of constructing the first explainer, whose method
  \<open>shap_values\<close> is the function to the right, or the exception the constructor raised;
  \<open>KernelExplainer\<close> is the method \<open>shap_values\<close> of the second one.
\<close>

definition get_shap_explainer :: "'f artifacts \<Rightarrow> 'f ndarray \<Rightarrow> py_exception + 'f shap_values" where
  "get_shap_explainer a =
     (case DeepExplainer a of
        Inr explainer \<Rightarrow> explainer
      | Inl ex \<Rightarrow> KernelExplainer a)"

text \<open>\<open>np.array(xs)\<close> of a list of numbers, \<open>a.reshape(1, -1)\<close>, \<open>a[0]\<close> and
  \<open>np.squeeze(a, axis=-1)\<close>.\<close>

definition np_array :: "'f list \<Rightarrow> 'f ndarray" where
  "np_array xs = \<lparr>shape = [length xs], data = xs\<rparr>"

definition reshape_1 :: "'f ndarray \<Rightarrow> 'f ndarray" where
  "reshape_1 a = \<lparr>shape = [1, length (data a)], data = data a\<rparr>"

definition getitem_0 :: "'f ndarray \<Rightarrow> py_exception + 'f ndarray" where
  "getitem_0 a =
     (case shape a of
        [] \<Rightarrow> Inl IndexError
      | n # rest \<Rightarrow>
          if n = 0 then Inl IndexError
          else Inr \<lparr>shape = rest, data = take (prod_list rest) (data a)\<rparr>)"

definition squeeze_last :: "'f ndarray \<Rightarrow> py_exception + 'f ndarray" where
  "squeeze_last a =
     (if shape a = [] \<or> last (shape a) \<noteq> 1 then Inl ValueError
      else Inr \<lparr>shape = butlast (shape a), data = data a\<rparr>)"

text \<open>
  The result is the tuple \<open>(prediction[0][0], features, shap_values, features_scaled)\<close>, or
  \<open>None\<close> for the tuple \<open>(None, None, None, None)\<close> that the handler returns after it has
  shown the error. The handler catches every \<open>Exception\<close>.
\<close>

definition make_prediction_and_explain ::
  "'f artifacts \<Rightarrow> env \<Rightarrow> lru \<Rightarrow> string
     \<Rightarrow> (py_exception + ('f ndarray \<times> int ndarray \<times> 'f ndarray \<times> 'f ndarray) option) \<times> lru" where
  "make_prediction_and_explain a e cache url =
     (case extract_features e cache url of
        (extracted, cache') \<Rightarrow>
          (Inr (except_Exception
             (bind_exn extracted (\<lambda>fs.
              let features = np_array fs in
              bind_exn (scaler_transform a (reshape_1 features)) (\<lambda>features_scaled.
              bind_exn (model_predict a features_scaled) (\<lambda>prediction.
              bind_exn (get_shap_explainer a features_scaled) (\<lambda>shap_values.
              bind_exn (case shap_values of
                          ShapList l \<Rightarrow> (case l of [] \<Rightarrow> Inl IndexError | x # xs \<Rightarrow> Inr x)
                        | ShapArray x \<Rightarrow> Inr x) (\<lambda>shap_values.
              bind_exn (if length (shape shap_values) = 3 then squeeze_last shap_values
                        else Inr shap_values) (\<lambda>shap_values.
              bind_exn (getitem_0 prediction) (\<lambda>prediction_0.
              bind_exn (getitem_0 prediction_0) (\<lambda>prediction_0_0.
              Inr (Some (prediction_0_0, features, shap_values, features_scaled)))))))))))
             None),
           cache'))"

section \<open>Reachable caches and two concrete worlds\<close>

text \<open>
  The cache starts empty and only \<open>check_dns_record\<close> writes to it, so every cache the
  program can reach holds results of \<open>check_dns_record\<close>, which are 0 or 1.
\<close>

definition valid_cache :: "lru \<Rightarrow> bool" where
  "valid_cache cache = list_all (\<lambda>kv. snd kv = 0 \<or> snd kv = 1) cache"

text \<open>
  \<open>offline\<close> is a machine with no network and no ranking file: every lookup fails.
  \<open>online\<close> is a machine on which every name resolves, the ranking file lists
  \<open>example.com\<close>, every domain was registered 400 days ago and expires in 600 days, and
  every page is served without a redirect.
\<close>

definition offline :: env where
  "offline =
     \<lparr>resolver = (\<lambda>name. None),
      idna_ToASCII = (\<lambda>name. None),
      read_csv = (\<lambda>file. Inl (OtherError ''FileNotFoundError'')),
      whois = (\<lambda>domain. Inl (OtherError ''PywhoisError'')),
      now = 0,
      requests_get = (\<lambda>url timeout. Inl OSError)\<rparr>"

definition online :: env where
  "online =
     \<lparr>resolver = (\<lambda>name. Some ''192.0.2.1''),
      idna_ToASCII = (\<lambda>name. None),
      read_csv = (\<lambda>file. Inr [[OtherCell, StrCell ''example.com'']]),
      whois = (\<lambda>domain. Inr \<lparr>creation_date = PyList [PyDatetime (Naive 0)],
                                 expiration_date = PyDatetime (Naive (1000 * 86400000000))\<rparr>),
      now = 400 * 86400000000,
      requests_get = (\<lambda>url timeout.
                        Inr \<lparr>response_text = ''<a onmouseover=x>'', response_history = []\<rparr>)\<rparr>"

section \<open>Facts about the string helpers\<close>

lemma count_str_count_list: "count_str s c = int (count_list s c)"
  unfolding count_str_def by (induction s) auto

lemma count_str_nonneg: "0 \<le> count_str s c"
  by (simp add: count_str_def)

lemma dropWhile_replicate_append: "P c \<Longrightarrow> dropWhile P (replicate n c @ xs) = dropWhile P xs"
  by (induction n) simp_all

lemma rstrip_append_replicate: "rstrip (s @ replicate n c) [c] = rstrip s [c]"
  by (simp add: rstrip_def dropWhile_replicate_append)

lemma rstrip_idem: "rstrip (rstrip s cs) cs = rstrip s cs"
proof -
  have "dropWhile P (dropWhile P xs) = dropWhile P xs" for P and xs :: "'a list"
    by (induction xs) auto
  then show ?thesis by (simp add: rstrip_def)
qed

section \<open>The IP-literal feature\<close>

text \<open>
  C2. The claim: \<open>has_ip_address\<close> returns 1 whenever the host of the URL is a dotted-quad
  IPv4 literal, and in particular on \<open>http://192.168.1.1/@login\<close>. The code returns 0 on
  that URL: the pattern asks for the literal text \<open>{1-3}\<close> after the first digit of the
  fourth group.
\<close>

theorem has_ip_address_dotted_quad_is_0:
  "has_ip_address ''http://192.168.1.1/@login'' = 0"
  by code_simp

text \<open>
  More generally a match needs the text \<open>{1-3}\<close> in the URL, so the feature is 0 on every
  URL without a brace, whatever its host.
\<close>

lemma in_match_ends_SEQ:
  "j \<in> set (match_ends (SEQ a b) s i) \<longleftrightarrow> (\<exists>k \<in> set (match_ends a s i). j \<in> set (match_ends b s k))"
  by auto

lemma contains_drop:
  assumes "startswith (drop k s) t"
  shows "contains s t"
  using assms
proof (induction s arbitrary: k)
  case Nil
  then show ?case by (simp add: startswith_def)
next
  case (Cons c cs)
  show ?case
  proof (cases k)
    case 0
    with Cons.prems show ?thesis by simp
  next
    case (Suc k')
    with Cons.prems have "startswith (drop k' cs) t" by simp
    then have "contains cs t" by (rule Cons.IH)
    then show ?thesis by simp
  qed
qed

lemma literal_chain:
  assumes "j \<in> set (match_ends
             (SEQ (LITERAL CHR ''{'')
             (SEQ (LITERAL CHR ''1'')
             (SEQ (LITERAL CHR ''-'')
             (SEQ (LITERAL CHR ''3'')
             (SEQ (LITERAL CHR ''}'') AT_BOUNDARY))))) s k)"
  shows "startswith (drop k s) ''{1-3}''"
proof -
  from assms have l: "Suc (Suc (Suc (Suc k))) < length s"
    and c: "s ! k = CHR ''{''" "s ! Suc k = CHR ''1''" "s ! Suc (Suc k) = CHR ''-''"
       "s ! Suc (Suc (Suc k)) = CHR ''3''" "s ! Suc (Suc (Suc (Suc k))) = CHR ''}''"
    by (auto split: if_splits)
  from l have "drop k s = s ! k # s ! Suc k # s ! Suc (Suc k) # s ! Suc (Suc (Suc k))
                 # s ! Suc (Suc (Suc (Suc k))) # drop (Suc (Suc (Suc (Suc (Suc k))))) s"
    by (simp add: Cons_nth_drop_Suc)
  then show ?thesis
    by (simp add: startswith_def c)
qed

lemma has_ip_address_needs_literal:
  assumes "has_ip_address url = 1"
  shows "contains url ''{1-3}''"
proof -
  from assms have "re_search ip_pattern url"
    by (simp add: has_ip_address_def split: if_splits)
  then obtain i j where "j \<in> set (match_ends ip_pattern url i)"
    unfolding re_search_def list_ex_iff by (metis last_in_set)
  then obtain k where "j \<in> set (match_ends
             (SEQ (LITERAL CHR ''{'')
             (SEQ (LITERAL CHR ''1'')
             (SEQ (LITERAL CHR ''-'')
             (SEQ (LITERAL CHR ''3'')
             (SEQ (LITERAL CHR ''}'') AT_BOUNDARY))))) url k)"
    unfolding ip_pattern_def in_match_ends_SEQ [of _ AT_BOUNDARY]
      in_match_ends_SEQ [of _ "MAX_REPEAT 3 (UpTo 3) r" for r]
      in_match_ends_SEQ [of _ "IN rs" for rs]
    by blast
  then have "startswith (drop k url) ''{1-3}''" by (rule literal_chain)
  then show ?thesis by (rule contains_drop)
qed

lemma has_ip_address_plain_is_0:
  assumes "CHR ''{'' \<notin> set url"
  shows "has_ip_address url = 0"
proof -
  have "CHR ''{'' \<in> set s" if "contains s ''{1-3}''" for s
    using that by (induction s) (auto simp: startswith_def dest: in_set_takeD)
  with assms have "\<not> contains url ''{1-3}''" by blast
  with has_ip_address_needs_literal [of url] show ?thesis
    by (auto simp: has_ip_address_def)
qed

section \<open>When \<open>urlparse\<close> returns\<close>

text \<open>
  \<open>urlparse\<close> raises only on a bracketed host: on a URL with no square bracket it returns.
\<close>

lemma in_set_lstrip: "c \<in> set (lstrip s cs) \<Longrightarrow> c \<in> set s"
  unfolding lstrip_def by (rule set_dropWhileD)

lemma set_foldl_replace_empty: "set (foldl replace_empty s bs) \<subseteq> set s"
proof (induction bs arbitrary: s)
  case Nil
  show ?case by simp
next
  case (Cons b bs)
  have "set (foldl replace_empty (replace_empty s b) bs) \<subseteq> set (replace_empty s b)"
    by (rule Cons.IH)
  also have "\<dots> \<subseteq> set s" by (auto simp: replace_empty_def)
  finally show ?case by simp
qed

lemma in_set_splitnetloc: "c \<in> set (fst (splitnetloc u k)) \<Longrightarrow> c \<in> set u"
  unfolding splitnetloc_def Let_def by (auto dest!: in_set_dropD in_set_takeD)

lemma urlsplit_returns:
  assumes "CHR ''['' \<notin> set url" and "CHR '']'' \<notin> set url"
  shows "\<exists>r. urlsplit url = Inr r"
proof -
  define u where "u = foldl replace_empty (lstrip url WHATWG_C0_CONTROL_OR_SPACE) UNSAFE_URL_BYTES_TO_REMOVE"
  have u: "c \<in> set u \<Longrightarrow> c \<in> set url" for c
    unfolding u_def using set_foldl_replace_empty in_set_lstrip by blast
  have nb: "CHR ''['' \<notin> set (fst (splitnetloc u 2))" "CHR '']'' \<notin> set (fst (splitnetloc u 2))"
    "CHR ''['' \<notin> set (fst (splitnetloc (drop k u) 2))"
    "CHR '']'' \<notin> set (fst (splitnetloc (drop k u) 2))" for k
    using assms u by (auto dest!: in_set_splitnetloc in_set_dropD)
  show ?thesis
    unfolding urlsplit_def Let_def u_def [symmetric]
    by (simp add: checknetloc_def split_def nb)
qed

lemma urlparse_returns:
  assumes "CHR ''['' \<notin> set url" and "CHR '']'' \<notin> set url"
  shows "\<exists>r. urlparse url = Inr r"
proof -
  from urlsplit_returns [OF assms] obtain r where "urlsplit url = Inr r" ..
  then show ?thesis
    by (cases r) (simp add: urlparse_def Let_def split_def)
qed

section \<open>The feature vector\<close>

text \<open>
  When \<open>urlparse\<close> accepts the stripped URL, the five lexical features that call it return,
  and \<open>extract_features\<close> is the list below unless the name lookup raises.
\<close>

lemma extract_features_raises:
  assumes "urlparse (rstrip url ''/'') = Inl ex"
  shows "extract_features e cache url = (Inl ex, cache)"
  using assms by (simp add: extract_features_def)

lemma lexical_returns:
  assumes "urlparse u = Inr r"
  shows "get_url_depth u = Inr (if path r = ''/'' then 0 else count_str (path r) CHR ''/'')"
    and "has_redirection u = Inr (if contains (path r) ''//'' then 1 else 0)"
    and "has_https_in_domain u = Inr (if contains (netloc r) ''https'' then 1 else 0)"
    and "is_tiny_url u = Inr (if netloc r \<in> set tiny_domain then 1 else 0)"
    and "has_prefix_suffix u = Inr (if CHR ''-'' \<in> set (netloc r) then 1 else 0)"
  using assms
  by (simp_all add: get_url_depth_def has_redirection_def has_https_in_domain_def
      is_tiny_url_def has_prefix_suffix_def)

lemma extract_features_returns:
  assumes "urlparse (rstrip url ''/'') = Inr r"
  shows "extract_features e cache url =
     (case check_dns_record e cache (netloc r) of
        (Inl ex, cache') \<Rightarrow> (Inl ex, cache')
      | (Inr dns_record, cache') \<Rightarrow>
          (Inr [has_ip_address (rstrip url ''/''), has_at_symbol (rstrip url ''/''),
                get_url_length (rstrip url ''/''),
                (if path r = ''/'' then 0 else count_str (path r) CHR ''/''),
                (if contains (path r) ''//'' then 1 else 0),
                (if contains (netloc r) ''https'' then 1 else 0),
                (if netloc r \<in> set tiny_domain then 1 else 0),
                (if CHR ''-'' \<in> set (netloc r) then 1 else 0),
                dns_record,
                get_web_traffic e (netloc r), get_domain_age e (netloc r),
                get_domain_end_period e (netloc r),
                0, has_mouse_over_effect e (rstrip url ''/''),
                allows_right_click (rstrip url ''/''), has_web_forwards e (rstrip url ''/'')],
           cache'))"
  unfolding extract_features_def Let_def
  by (simp only: assms lexical_returns [OF assms] sum.case)

lemma check_dns_record_wrapped_binary:
  "check_dns_record_wrapped e domain = Inr v \<Longrightarrow> v = 0 \<or> v = 1"
  by (auto simp: check_dns_record_wrapped_def split: sum.splits if_splits)

lemma check_dns_record_binary:
  assumes "valid_cache cache" and "check_dns_record e cache domain = (Inr v, cache')"
  shows "(v = 0 \<or> v = 1) \<and> valid_cache cache'"
proof (cases "map_of cache domain")
  case None
  with assms(2) have w: "check_dns_record_wrapped e domain = Inr v"
    and c: "cache' = take maxsize ((domain, v) # cache)"
    by (auto simp: check_dns_record_def split: sum.splits)
  from w have v: "v = 0 \<or> v = 1" by (rule check_dns_record_wrapped_binary)
  have "set cache' \<subseteq> set ((domain, v) # cache)" unfolding c by (rule set_take_subset)
  with v assms(1) have "valid_cache cache'"
    by (auto simp: valid_cache_def list_all_iff)
  with v show ?thesis by simp
next
  case (Some w)
  with assms(2) have v: "w = v" and c: "cache' = (domain, v) # filter (\<lambda>kv. fst kv \<noteq> domain) cache"
    by (auto simp: check_dns_record_def)
  from Some have "(domain, w) \<in> set cache" by (rule map_of_SomeD)
  with assms(1) v have b: "v = 0 \<or> v = 1" by (auto simp: valid_cache_def list_all_iff)
  with assms(1) have "valid_cache cache'" unfolding c by (auto simp: valid_cache_def list_all_iff)
  with b show ?thesis by simp
qed

lemma check_dns_record_raises_keeps_cache:
  "check_dns_record e cache domain = (Inl ex, cache') \<Longrightarrow> cache' = cache"
  by (auto simp: check_dns_record_def split: option.splits sum.splits)

lemma binary_features:
  "has_ip_address u = 0 \<or> has_ip_address u = 1"
  "has_at_symbol u = 0 \<or> has_at_symbol u = 1"
  "get_url_length u = 0 \<or> get_url_length u = 1"
  "get_web_traffic e d = 0 \<or> get_web_traffic e d = 1"
  "get_domain_age e d = 0 \<or> get_domain_age e d = 1"
  "get_domain_end_period e d = 0 \<or> get_domain_end_period e d = 1"
  "has_mouse_over_effect e u = 0 \<or> has_mouse_over_effect e u = 1"
  "allows_right_click u = 1"
  "has_web_forwards e u = 0 \<or> has_web_forwards e u = 1"
  by (auto simp: has_ip_address_def has_at_symbol_def get_url_length_def get_web_traffic_def
      get_domain_age_def get_domain_end_period_def has_mouse_over_effect_def
      allows_right_click_def has_web_forwards_def except_Exception_def bind_exn_def Let_def
      split: sum.splits)

text \<open>
  C1. The claim: for every URL, \<open>extract_features\<close> returns a list of exactly 16 values, each
  of them 0 or 1. Amended: whenever \<open>extract_features\<close> returns, from a cache the program
  can reach, it returns exactly 16 integers; every slot other than slot 3 (the three
  before it and the twelve after it) holds 0 or 1, and slot 3, the path depth, holds a
  count that is not negative and can exceed 1. (The cache it leaves can be reached again.)
\<close>

theorem extract_features_shape:
  assumes "valid_cache cache" and "extract_features e cache url = (Inr fs, cache')"
  shows "length fs = 16 \<and> (\<forall>v \<in> set (take 3 fs @ drop 4 fs). v = 0 \<or> v = 1) \<and> 0 \<le> fs ! 3
         \<and> valid_cache cache'"
proof -
  obtain r where r: "urlparse (rstrip url ''/'') = Inr r"
    using assms(2) by (cases "urlparse (rstrip url ''/'')") (auto simp: extract_features_raises)
  obtain dns where dns: "check_dns_record e cache (netloc r) = (Inr dns, cache')"
    and fs: "fs = [has_ip_address (rstrip url ''/''), has_at_symbol (rstrip url ''/''),
                get_url_length (rstrip url ''/''),
                (if path r = ''/'' then 0 else count_str (path r) CHR ''/''),
                (if contains (path r) ''//'' then 1 else 0),
                (if contains (netloc r) ''https'' then 1 else 0),
                (if netloc r \<in> set tiny_domain then 1 else 0),
                (if CHR ''-'' \<in> set (netloc r) then 1 else 0),
                dns,
                get_web_traffic e (netloc r), get_domain_age e (netloc r),
                get_domain_end_period e (netloc r),
                0, has_mouse_over_effect e (rstrip url ''/''),
                allows_right_click (rstrip url ''/''), has_web_forwards e (rstrip url ''/'')]"
    using assms(2) unfolding extract_features_returns [OF r]
    by (auto split: prod.splits sum.splits)
  from check_dns_record_binary [OF assms(1) dns]
  have b: "dns = 0 \<or> dns = 1" and c: "valid_cache cache'" by simp_all
  have len: "length fs = 16" by (simp add: fs)
  have depth: "0 \<le> fs ! 3" by (simp add: fs count_str_nonneg)
  have bits: "\<forall>v \<in> set (take 3 fs @ drop 4 fs). v = 0 \<or> v = 1"
    using b binary_features by (simp add: fs)
  from len bits depth c show ?thesis by simp
qed

text \<open>
  The claim as stated fails on \<open>http://a.com/b/c\<close>, whose path has two separators: slot 3
  holds 2.
\<close>

theorem extract_features_depth_two:
  "fst (extract_features offline [] ''http://a.com/b/c'')
     = Inr [0, 0, 1, 2, 0, 0, 0, 0, 0, 0, 0, 0, 0, 0, 1, 0]"
  by code_simp

text \<open>The amended statement on \<open>https://example.com/a\<close>, on a machine with a network.\<close>

theorem extract_features_shape_witness:
  "valid_cache []
   \<and> extract_features online [] ''https://example.com/a''
       = (Inr [0, 0, 1, 1, 0, 0, 0, 0, 1, 1, 1, 1, 0, 1, 1, 0], [(''example.com'', 1)])
   \<and> length [0, 0, 1, 1, 0, 0, 0, 0, 1, 1, 1, 1, 0, 1, 1, 0 :: int] = 16
   \<and> list_all (\<lambda>v. v = 0 \<or> v = 1)
        (take 3 [0, 0, 1, 1, 0, 0, 0, 0, 1, 1, 1, 1, 0, 1, 1, 0 :: int]
         @ drop 4 [0, 0, 1, 1, 0, 0, 0, 0, 1, 1, 1, 1, 0, 1, 1, 0])
   \<and> valid_cache [(''example.com'', 1)]"
proof -
  have v: "valid_cache []" by (simp add: valid_cache_def)
  have h: "extract_features online [] ''https://example.com/a''
       = (Inr [0, 0, 1, 1, 0, 0, 0, 0, 1, 1, 1, 1, 0, 1, 1, 0], [(''example.com'', 1)])"
    by code_simp
  from extract_features_shape [OF v h] v h show ?thesis by simp
qed

text \<open>
  When it returns: on a URL without square brackets whose host the \<open>idna\<close> codec encodes,
  to a name with no null character; a failing lookup is then an error of the socket
  library, which the probe catches.
\<close>

lemma in_set_rstrip: "c \<in> set (rstrip s cs) \<Longrightarrow> c \<in> set s"
  unfolding rstrip_def by (auto dest: set_dropWhileD)

lemma gethostbyname_outcomes:
  assumes "idna_encode e name = Inr enc" and "CHR 0x00 \<notin> set enc"
  shows "(\<exists>addr. gethostbyname e name = Inr addr) \<or> gethostbyname e name = Inl OSError"
  using assms by (simp add: gethostbyname_def split: option.splits)

lemma check_dns_record_returns:
  assumes "idna_encode e domain = Inr enc" and "CHR 0x00 \<notin> set enc"
  shows "\<exists>v c. check_dns_record e cache domain = (Inr v, c)"
  using gethostbyname_outcomes [OF assms]
  by (auto simp: check_dns_record_def check_dns_record_wrapped_def is_socket_error_def
      split: option.splits)

lemma extract_features_total:
  assumes "CHR ''['' \<notin> set url" and "CHR '']'' \<notin> set url"
      and "\<And>r. urlparse (rstrip url ''/'') = Inr r
             \<Longrightarrow> \<exists>enc. idna_encode e (netloc r) = Inr enc \<and> CHR 0x00 \<notin> set enc"
  shows "\<exists>fs c. extract_features e cache url = (Inr fs, c)"
proof -
  from assms(1,2) have "CHR ''['' \<notin> set (rstrip url ''/'')" "CHR '']'' \<notin> set (rstrip url ''/'')"
    by (blast dest: in_set_rstrip)+
  then obtain r where r: "urlparse (rstrip url ''/'') = Inr r"
    using urlparse_returns by blast
  from assms(3) [OF r] obtain enc where "idna_encode e (netloc r) = Inr enc" "CHR 0x00 \<notin> set enc"
    by blast
  from check_dns_record_returns [OF this]
  obtain v c where "check_dns_record e cache (netloc r) = (Inr v, c)" by blast
  then show ?thesis
    unfolding extract_features_returns [OF r] by simp
qed

section \<open>A host name that cannot be encoded\<close>

text \<open>
  \<open>http://a..b\<close> is accepted by \<open>urlparse\<close>, with host \<open>a..b\<close>. The host has an empty label,
  so the \<open>idna\<close> codec raises \<open>UnicodeError\<close> before any lookup is made, whatever the world;
  \<open>check_dns_record\<close> catches \<open>socket.error\<close> only.
\<close>

lemma urlparse_a_dot_dot_b:
  "urlparse (rstrip ''http://a..b'' ''/'')
     = Inr \<lparr>scheme = ''http'', netloc = ''a..b'', path = [], params = [], query = [], fragment = []\<rparr>"
  by code_simp

lemma idna_encode_a_dot_dot_b: "idna_encode e ''a..b'' = Inl UnicodeError"
  by (simp add: idna_encode_def isascii_def)

lemma check_dns_record_a_dot_dot_b: "check_dns_record e [] ''a..b'' = (Inl UnicodeError, [])"
  by (simp add: check_dns_record_def check_dns_record_wrapped_def gethostbyname_def
      idna_encode_a_dot_dot_b is_socket_error_def)

lemma extract_features_a_dot_dot_b: "extract_features e [] ''http://a..b'' = (Inl UnicodeError, [])"
  by (simp add: extract_features_returns [OF urlparse_a_dot_dot_b] check_dns_record_a_dot_dot_b)

text \<open>The same happens on a host with a label of 64 characters.\<close>

lemma long_label_raises:
  "extract_features e []
     ''http://aaaaaaaaaaaaaaaaaaaaaaaaaaaaaaaaaaaaaaaaaaaaaaaaaaaaaaaaaaaaaaaa.com''
   = (Inl UnicodeError, [])"
proof -
  let ?host = "''aaaaaaaaaaaaaaaaaaaaaaaaaaaaaaaaaaaaaaaaaaaaaaaaaaaaaaaaaaaaaaaa.com''"
  have p: "urlparse (rstrip ''http://aaaaaaaaaaaaaaaaaaaaaaaaaaaaaaaaaaaaaaaaaaaaaaaaaaaaaaaaaaaaaaaa.com'' ''/'')
     = Inr \<lparr>scheme = ''http'', netloc = ?host, path = [], params = [], query = [], fragment = []\<rparr>"
    by code_simp
  have "idna_encode e ?host = Inl UnicodeError"
    by (simp add: idna_encode_def isascii_def)
  then have "check_dns_record e [] ?host = (Inl UnicodeError, [])"
    by (simp add: check_dns_record_def check_dns_record_wrapped_def gethostbyname_def
        is_socket_error_def)
  then show ?thesis
    by (simp add: extract_features_returns [OF p])
qed

text \<open>
  C3. The claim: \<open>make_prediction_and_explain\<close> never raises, and for every syntactically
  acceptable URL it produces a probability with the feature vector and the explanation.
  On \<open>http://a..b\<close>, in a program that has just started, it returns the tuple of
  \<open>None\<close>s, whatever the artifacts and the world: the exception of the name lookup leaves
  \<open>extract_features\<close> and is caught by the handler.
\<close>

theorem make_prediction_and_explain_no_probability:
  "make_prediction_and_explain a e [] ''http://a..b'' = (Inr None, [])"
  by (simp add: make_prediction_and_explain_def extract_features_a_dot_dot_b
      bind_exn_def except_Exception_def)

text \<open>The first half of the claim holds: the handler lets no exception through.\<close>

lemma make_prediction_and_explain_never_raises:
  "\<exists>result. fst (make_prediction_and_explain a e cache url) = Inr result"
  by (simp add: make_prediction_and_explain_def split: prod.splits)

text \<open>
  And when \<open>extract_features\<close> returns and the artifacts answer with arrays of the expected
  shapes, the tuple is produced.
\<close>

lemma make_prediction_and_explain_returns:
  assumes "extract_features e cache url = (Inr fs, cache')"
      and "scaler_transform a (reshape_1 (np_array fs)) = Inr features_scaled"
      and "model_predict a features_scaled = Inr prediction"
      and "getitem_0 prediction = Inr p0" and "getitem_0 p0 = Inr p00"
      and "get_shap_explainer a features_scaled = Inr (ShapArray sv)"
      and "length (shape sv) \<noteq> 3"
  shows "make_prediction_and_explain a e cache url
           = (Inr (Some (p00, np_array fs, sv, features_scaled)), cache')"
  using assms
  by (simp add: make_prediction_and_explain_def bind_exn_def except_Exception_def)

text \<open>
  C4. The claim: in every probe, any exception yields the default 0 and none leaves the
  probe. The name lookup on \<open>a..b\<close> raises \<open>UnicodeError\<close>, which leaves
  \<open>check_dns_record\<close> and then \<open>extract_features\<close>.
\<close>

theorem dns_probe_lets_UnicodeError_through:
  "check_dns_record_wrapped e ''a..b'' = Inl UnicodeError
   \<and> check_dns_record e [] ''a..b'' = (Inl UnicodeError, [])
   \<and> extract_features e [] ''http://a..b'' = (Inl UnicodeError, [])"
  by (simp add: check_dns_record_a_dot_dot_b extract_features_a_dot_dot_b
      check_dns_record_wrapped_def gethostbyname_def idna_encode_a_dot_dot_b is_socket_error_def)

text \<open>
  The other probes do as the claim says, and so does the name lookup on the errors of the
  socket library.
\<close>

lemma dns_probe_default_on_socket_error:
  "gethostbyname e domain = Inl OSError \<Longrightarrow> check_dns_record_wrapped e domain = Inr 0"
  by (simp add: check_dns_record_wrapped_def is_socket_error_def)

lemma registration_probes_default:
  "whois e domain = Inl ex \<Longrightarrow> get_domain_age e domain = 0"
  "whois e domain = Inl ex \<Longrightarrow> get_domain_end_period e domain = 0"
  by (simp_all add: get_domain_age_def get_domain_end_period_def bind_exn_def except_Exception_def)

lemma fetch_probes_default:
  "requests_get e url 5 = Inl ex \<Longrightarrow> has_mouse_over_effect e url = 0"
  "requests_get e url 3 = Inl ex \<Longrightarrow> has_web_forwards e url = 0"
  by (simp_all add: has_mouse_over_effect_def has_web_forwards_def bind_exn_def except_Exception_def)

lemma popularity_probe_default:
  "read_csv e ''tranco_Z38YG.csv'' = Inl ex \<Longrightarrow> get_web_traffic e domain = 0"
  by (simp add: get_web_traffic_def ranked_domains_def)

lemma missing_dates_default:
  "whois e domain = Inr info \<Longrightarrow> creation_date info = PyNone \<Longrightarrow> get_domain_age e domain = 0"
  "whois e domain = Inr info \<Longrightarrow> expiration_date info = PyNone \<Longrightarrow> get_domain_end_period e domain = 0"
  by (simp_all add: get_domain_age_def get_domain_end_period_def bind_exn_def except_Exception_def
      first_if_list_def)

section \<open>The lexical features do not depend on the world\<close>

text \<open>
  C6. Every lexical feature function is deterministic and free of I/O: two calls on the same
  URL string return equal values. In the model the eight functions take the URL and nothing
  else. Stated on the program: whatever the two worlds and the two caches in which
  \<open>extract_features\<close> runs on a URL, the first eight slots of the two vectors are equal, and
  they are the values of the eight functions on the stripped URL.
\<close>

theorem lexical_features_pure:
  assumes "extract_features e1 cache1 url = (Inr fs1, cache1')"
      and "extract_features e2 cache2 url = (Inr fs2, cache2')"
  shows "take 8 fs1 = take 8 fs2
       \<and> map Inr (take 8 fs1) =
           [Inr (has_ip_address (rstrip url ''/'')), Inr (has_at_symbol (rstrip url ''/'')),
            Inr (get_url_length (rstrip url ''/'')), get_url_depth (rstrip url ''/''),
            has_redirection (rstrip url ''/''), has_https_in_domain (rstrip url ''/''),
            is_tiny_url (rstrip url ''/''), has_prefix_suffix (rstrip url ''/'')]"
proof -
  obtain r where r: "urlparse (rstrip url ''/'') = Inr r"
    using assms(1) by (cases "urlparse (rstrip url ''/'')") (auto simp: extract_features_raises)
  let ?lex = "[has_ip_address (rstrip url ''/''), has_at_symbol (rstrip url ''/''),
                get_url_length (rstrip url ''/''),
                (if path r = ''/'' then 0 else count_str (path r) CHR ''/''),
                (if contains (path r) ''//'' then 1 else 0),
                (if contains (netloc r) ''https'' then 1 else 0),
                (if netloc r \<in> set tiny_domain then 1 else 0),
                (if CHR ''-'' \<in> set (netloc r) then 1 else 0)]"
  have 1: "take 8 fs1 = ?lex"
    using assms(1) unfolding extract_features_returns [OF r]
    by (auto split: prod.splits sum.splits)
  have 2: "take 8 fs2 = ?lex"
    using assms(2) unfolding extract_features_returns [OF r]
    by (auto split: prod.splits sum.splits)
  show ?thesis
    unfolding 1 2 by (simp add: lexical_returns [OF r])
qed

text \<open>The same URL with no network and an empty cache, and with a network and a cache entry.\<close>

theorem lexical_features_pure_witness:
  "extract_features offline [] ''http://example.com/a''
     = (Inr [0, 0, 1, 1, 0, 0, 0, 0, 0, 0, 0, 0, 0, 0, 1, 0], [(''example.com'', 0)])
   \<and> extract_features online [(''example.com'', 1)] ''http://example.com/a''
     = (Inr [0, 0, 1, 1, 0, 0, 0, 0, 1, 1, 1, 1, 0, 1, 1, 0], [(''example.com'', 1)])
   \<and> take 8 [0, 0, 1, 1, 0, 0, 0, 0, 0, 0, 0, 0, 0, 0, 1, 0 :: int]
     = take 8 [0, 0, 1, 1, 0, 0, 0, 0, 1, 1, 1, 1, 0, 1, 1, 0 :: int]"
proof -
  have a: "extract_features offline [] ''http://example.com/a''
     = (Inr [0, 0, 1, 1, 0, 0, 0, 0, 0, 0, 0, 0, 0, 0, 1, 0], [(''example.com'', 0)])"
    by code_simp
  have b: "extract_features online [(''example.com'', 1)] ''http://example.com/a''
     = (Inr [0, 0, 1, 1, 0, 0, 0, 0, 1, 1, 1, 1, 0, 1, 1, 0], [(''example.com'', 1)])"
    by code_simp
  from lexical_features_pure [OF a b] a b show ?thesis by blast
qed

section \<open>A failed name lookup changes slot 8 only\<close>

lemma record_update_probes:
  "get_web_traffic (e\<lparr>resolver := f\<rparr>) d = get_web_traffic e d"
  "get_domain_age (e\<lparr>resolver := f\<rparr>) d = get_domain_age e d"
  "get_domain_end_period (e\<lparr>resolver := f\<rparr>) d = get_domain_end_period e d"
  "has_mouse_over_effect (e\<lparr>resolver := f\<rparr>) u = has_mouse_over_effect e u"
  "has_web_forwards (e\<lparr>resolver := f\<rparr>) u = has_web_forwards e u"
  by (simp_all add: get_web_traffic_def ranked_domains_def get_domain_age_def
      get_domain_end_period_def has_mouse_over_effect_def has_web_forwards_def)

text \<open>
  C7. A DNS resolution failure for the domain of a URL sets slot 8 to 0, leaves the other 15
  slots as they would be under a successful resolution, and raises no exception. The two
  runs differ in the resolver only; the lookup takes place (the domain is not in the cache),
  it succeeds in one world and fails with an error of the socket library (a timeout is one)
  in the other.
\<close>

theorem dns_failure_isolated:
  assumes "urlparse (rstrip url ''/'') = Inr r"
      and "map_of cache (netloc r) = None"
      and "gethostbyname e (netloc r) = Inr addr"
      and "gethostbyname (e\<lparr>resolver := f\<rparr>) (netloc r) = Inl ex"
      and "is_socket_error ex"
  shows "\<exists>fs c1 c2. extract_features e cache url = (Inr fs, c1)
           \<and> extract_features (e\<lparr>resolver := f\<rparr>) cache url = (Inr (fs[8 := 0]), c2)
           \<and> fs ! 8 = 1"
proof -
  have ok: "check_dns_record e cache (netloc r)
              = (Inr 1, take maxsize ((netloc r, 1) # cache))"
    using assms(2,3) by (simp add: check_dns_record_def check_dns_record_wrapped_def)
  have fail: "check_dns_record (e\<lparr>resolver := f\<rparr>) cache (netloc r)
              = (Inr 0, take maxsize ((netloc r, 0) # cache))"
    using assms(2,4,5) by (simp add: check_dns_record_def check_dns_record_wrapped_def)
  show ?thesis
    unfolding extract_features_returns [OF assms(1)] ok fail
    by (simp add: record_update_probes)
qed

text \<open>\<open>http://example.com/a\<close> with a resolver that answers and with one that does not.\<close>

theorem dns_failure_isolated_witness:
  "urlparse (rstrip ''http://example.com/a'' ''/'')
     = Inr \<lparr>scheme = ''http'', netloc = ''example.com'', path = ''/a'', params = [],
            query = [], fragment = []\<rparr>
   \<and> map_of ([] :: lru) ''example.com'' = None
   \<and> gethostbyname online ''example.com'' = Inr ''192.0.2.1''
   \<and> gethostbyname (online\<lparr>resolver := (\<lambda>name. None)\<rparr>) ''example.com'' = Inl OSError
   \<and> is_socket_error OSError
   \<and> (\<exists>fs c1 c2. extract_features online [] ''http://example.com/a'' = (Inr fs, c1)
           \<and> extract_features (online\<lparr>resolver := (\<lambda>name. None)\<rparr>) [] ''http://example.com/a''
               = (Inr (fs[8 := 0]), c2)
           \<and> fs ! 8 = 1)"
proof -
  have 1: "urlparse (rstrip ''http://example.com/a'' ''/'')
     = Inr \<lparr>scheme = ''http'', netloc = ''example.com'', path = ''/a'', params = [],
            query = [], fragment = []\<rparr>"
    by code_simp
  have 2: "map_of ([] :: lru) (netloc \<lparr>scheme = ''http'', netloc = ''example.com'', path = ''/a'',
            params = [], query = [], fragment = []\<rparr>) = None"
    by simp
  have 3: "gethostbyname online (netloc \<lparr>scheme = ''http'', netloc = ''example.com'', path = ''/a'',
            params = [], query = [], fragment = []\<rparr>) = Inr ''192.0.2.1''"
    by code_simp
  have 4: "gethostbyname (online\<lparr>resolver := (\<lambda>name. None)\<rparr>)
            (netloc \<lparr>scheme = ''http'', netloc = ''example.com'', path = ''/a'',
            params = [], query = [], fragment = []\<rparr>) = Inl OSError"
    by code_simp
  have 5: "is_socket_error OSError" by (simp add: is_socket_error_def)
  from dns_failure_isolated [OF 1 2 3 4 5] 1 2 3 4 5 show ?thesis by simp
qed

section \<open>Path depth\<close>

text \<open>
  C8. \<open>get_url_depth\<close> is the number of \<open>/\<close> separators in the path that \<open>urlparse\<close> finds,
  and 0 when the path is empty or is the root path \<open>/\<close>.
\<close>

theorem get_url_depth_counts_separators:
  assumes "urlparse url = Inr r"
  shows "\<exists>d. get_url_depth url = Inr d
           \<and> (path r \<noteq> ''/'' \<longrightarrow> d = int (count_list (path r) CHR ''/''))
           \<and> (path r = [] \<or> path r = ''/'' \<longrightarrow> d = 0)"
  using assms by (auto simp: get_url_depth_def count_str_count_list)

text \<open>The path \<open>/b/c\<close> has depth 2.\<close>

theorem get_url_depth_counts_separators_witness:
  "urlparse ''http://a.com/b/c''
     = Inr \<lparr>scheme = ''http'', netloc = ''a.com'', path = ''/b/c'', params = [], query = [],
            fragment = []\<rparr>
   \<and> get_url_depth ''http://a.com/b/c'' = Inr 2
   \<and> int (count_list ''/b/c'' CHR ''/'') = 2"
proof -
  have 1: "urlparse ''http://a.com/b/c''
     = Inr \<lparr>scheme = ''http'', netloc = ''a.com'', path = ''/b/c'', params = [], query = [],
            fragment = []\<rparr>"
    by code_simp
  from get_url_depth_counts_separators [OF 1] 1 show ?thesis by auto
qed

lemma get_url_depth_root: "get_url_depth ''http://a.com/'' = Inr 0"
  by code_simp

section \<open>Trailing slashes\<close>

lemma extract_features_rstrip:
  "rstrip url1 ''/'' = rstrip url2 ''/'' \<Longrightarrow> extract_features e cache url1 = extract_features e cache url2"
  by (simp add: extract_features_def)

text \<open>
  Whatever the calls do, return or raise, they do the same on URLs that differ only in
  their trailing slashes, and the same as on the stripped URL.
\<close>

lemma trailing_slashes_same_outcome:
  "extract_features e cache (url @ replicate m CHR ''/'')
     = extract_features e cache (url @ replicate n CHR ''/'')"
  "extract_features e cache (url @ replicate m CHR ''/'') = extract_features e cache (rstrip url ''/'')"
  by (rule extract_features_rstrip, simp add: rstrip_append_replicate rstrip_idem)+

text \<open>
  C9. \<open>extract_features\<close> strips every trailing \<open>/\<close> before it computes a feature, so two
  URLs that differ only in the number of trailing slashes produce identical 16-element
  vectors: when the call on one of them returns a vector, the call on the other returns
  the same vector (and leaves the same cache), so does the call on the stripped URL, the
  vector has 16 elements, and its first slots are the features of the stripped URL.
\<close>

theorem trailing_slashes_same_vector:
  assumes "extract_features e cache (url @ replicate m CHR ''/'') = (Inr fs, cache')"
  shows "extract_features e cache (url @ replicate n CHR ''/'') = (Inr fs, cache')
       \<and> extract_features e cache (rstrip url ''/'') = (Inr fs, cache')
       \<and> length fs = 16
       \<and> take 3 fs = [has_ip_address (rstrip url ''/''), has_at_symbol (rstrip url ''/''),
                       get_url_length (rstrip url ''/'')]"
proof -
  have s: "rstrip (url @ replicate m CHR ''/'') ''/'' = rstrip url ''/''"
    by (simp add: rstrip_append_replicate)
  obtain r where r: "urlparse (rstrip (url @ replicate m CHR ''/'') ''/'') = Inr r"
    using assms
    by (cases "urlparse (rstrip (url @ replicate m CHR ''/'') ''/'')")
       (auto simp: extract_features_raises)
  have n: "extract_features e cache (url @ replicate n CHR ''/'') = (Inr fs, cache')"
    using assms trailing_slashes_same_outcome(1) [of e cache url n m] by simp
  have t: "extract_features e cache (rstrip url ''/'') = (Inr fs, cache')"
    using assms trailing_slashes_same_outcome(2) [of e cache url m] by simp
  have "length fs = 16 \<and> take 3 fs = [has_ip_address (rstrip url ''/''),
          has_at_symbol (rstrip url ''/''), get_url_length (rstrip url ''/'')]"
    using assms unfolding extract_features_returns [OF r] s
    by (auto split: prod.splits sum.splits)
  with n t show ?thesis by simp
qed

text \<open>\<open>https://example.com/a\<close> followed by three slashes and by one.\<close>

theorem trailing_slashes_same_vector_witness:
  "extract_features online [] (''https://example.com/a'' @ replicate 3 CHR ''/'')
     = (Inr [0, 0, 1, 1, 0, 0, 0, 0, 1, 1, 1, 1, 0, 1, 1, 0], [(''example.com'', 1)])
   \<and> extract_features online [] (''https://example.com/a'' @ replicate 1 CHR ''/'')
     = (Inr [0, 0, 1, 1, 0, 0, 0, 0, 1, 1, 1, 1, 0, 1, 1, 0], [(''example.com'', 1)])
   \<and> extract_features online [] ''https://example.com/a///''
     = (Inr [0, 0, 1, 1, 0, 0, 0, 0, 1, 1, 1, 1, 0, 1, 1, 0], [(''example.com'', 1)])
   \<and> length [0, 0, 1, 1, 0, 0, 0, 0, 1, 1, 1, 1, 0, 1, 1, 0 :: int] = 16"
proof -
  have h: "extract_features online [] (''https://example.com/a'' @ replicate 3 CHR ''/'')
     = (Inr [0, 0, 1, 1, 0, 0, 0, 0, 1, 1, 1, 1, 0, 1, 1, 0], [(''example.com'', 1)])"
    by code_simp
  have l: "extract_features online [] ''https://example.com/a///''
     = (Inr [0, 0, 1, 1, 0, 0, 0, 0, 1, 1, 1, 1, 0, 1, 1, 0], [(''example.com'', 1)])"
    by code_simp
  from trailing_slashes_same_vector [OF h, of 1] h l show ?thesis by simp
qed

lemma rstrip_no_trailing: "rstrip url ''/'' = [] \<or> last (rstrip url ''/'') \<noteq> CHR ''/''"
proof -
  have "dropWhile P xs = [] \<or> \<not> P (hd (dropWhile P xs))" for P and xs :: "'a list"
    by (metis hd_dropWhile)
  from this [of "\<lambda>c. c \<in> set ''/''" "rev url"] show ?thesis
    by (auto simp: rstrip_def last_rev)
qed

text \<open>
  The same holds for a second call made after the first, from the cache the first call
  left: the lookup is answered from the cache with the value just stored.
\<close>

lemma check_dns_record_again:
  assumes "check_dns_record e cache domain = (Inr v, cache')"
  shows "check_dns_record e' cache' domain = (Inr v, cache')"
proof (cases "map_of cache domain")
  case None
  with assms have c: "cache' = take maxsize ((domain, v) # cache)"
    by (auto simp: check_dns_record_def split: sum.splits)
  have m: "maxsize = Suc (maxsize - 1)" by (simp add: maxsize_def)
  from None have "domain \<notin> fst ` set cache" by (simp add: map_of_eq_None_iff)
  then have "filter (\<lambda>kv. fst kv \<noteq> domain) (take k cache) = take k cache" for k
    by (auto simp: filter_id_conv dest: in_set_takeD)
  then have "filter (\<lambda>kv. fst kv \<noteq> domain) cache' = take (maxsize - 1) cache"
    unfolding c by (subst m) simp
  moreover have "cache' = (domain, v) # take (maxsize - 1) cache"
    unfolding c by (subst m) simp
  ultimately show ?thesis
    by (simp add: check_dns_record_def)
next
  case (Some w)
  with assms have "cache' = (domain, v) # filter (\<lambda>kv. fst kv \<noteq> domain) cache"
    by (auto simp: check_dns_record_def)
  then show ?thesis
    by (simp add: check_dns_record_def)
qed

lemma repeated_call_same_vector:
  assumes "extract_features e cache url = (Inr fs, cache')"
  shows "extract_features e cache' (url @ replicate n CHR ''/'') = (Inr fs, cache')"
proof -
  obtain r where r: "urlparse (rstrip url ''/'') = Inr r"
    using assms by (cases "urlparse (rstrip url ''/'')") (auto simp: extract_features_raises)
  from assms obtain v where v: "check_dns_record e cache (netloc r) = (Inr v, cache')"
    and fs: "extract_features e cache url
              = (case (Inr v, cache') of (Inl ex, c) \<Rightarrow> (Inl ex, c) | (Inr d, c) \<Rightarrow> (Inr fs, c))"
    unfolding extract_features_returns [OF r]
    by (auto split: prod.splits sum.splits)
  have "extract_features e cache' (url @ replicate n CHR ''/'') = extract_features e cache' url"
    by (rule extract_features_rstrip) (simp add: rstrip_append_replicate)
  also have "\<dots> = (Inr fs, cache')"
    using assms unfolding extract_features_returns [OF r] v check_dns_record_again [OF v]
    by simp
  finally show ?thesis .
qed



section \<open>URLs without a host\<close>

text \<open>
  C10. When \<open>urlparse\<close> finds no network location in the URL, \<open>has_https_in_domain\<close>,
  \<open>is_tiny_url\<close> and \<open>has_prefix_suffix\<close> return 0 and do not raise.
\<close>

theorem empty_netloc_features:
  assumes "urlparse url = Inr r" and "netloc r = []"
  shows "has_https_in_domain url = Inr 0 \<and> is_tiny_url url = Inr 0 \<and> has_prefix_suffix url = Inr 0"
  using assms
  by (simp add: has_https_in_domain_def is_tiny_url_def has_prefix_suffix_def tiny_domain_def
      startswith_def)

text \<open>\<open>www.example.com/login\<close> has no \<open>//\<close>, so all of it is path.\<close>

theorem empty_netloc_features_witness:
  "urlparse ''www.example.com/login''
     = Inr \<lparr>scheme = [], netloc = [], path = ''www.example.com/login'', params = [], query = [],
            fragment = []\<rparr>
   \<and> has_https_in_domain ''www.example.com/login'' = Inr 0
   \<and> is_tiny_url ''www.example.com/login'' = Inr 0
   \<and> has_prefix_suffix ''www.example.com/login'' = Inr 0"
proof -
  have 1: "urlparse ''www.example.com/login''
     = Inr \<lparr>scheme = [], netloc = [], path = ''www.example.com/login'', params = [], query = [],
            fragment = []\<rparr>"
    by code_simp
  have 2: "netloc \<lparr>scheme = [], netloc = [], path = ''www.example.com/login'', params = [],
            query = [], fragment = []\<rparr> = []"
    by simp
  from empty_netloc_features [OF 1 2] 1 show ?thesis by simp
qed

end
